theory Spec2Isabelle
  imports Main "HOL-Library.Word" "HOL-Library.Char_ord" "HOL-Library.List_Lexorder"
begin

section \<open>Package database: the Job and its derived predicates (job.go)\<close>

text \<open>
  A \<^verbatim>\<open>time.Time\<close> is modelled as the signed distance, in nanoseconds, of an instant
  from \<^verbatim>\<open>time.Time{}\<close> (January 1 of year 1, 00:00 UTC); instants before it are negative.
  \<^verbatim>\<open>t.After(u)\<close> compares the two instants.
\<close>

type_synonym Time = int

definition Time_zero :: Time where
  "Time_zero = 0"

definition Time_After :: "Time \<Rightarrow> Time \<Rightarrow> bool" where
  "Time_After t u = (u < t)"

type_synonym int64 = "64 word"

definition JobStatusSuccess :: string where
  "JobStatusSuccess = ''success''"

definition JobStatusError :: string where
  "JobStatusError = ''error''"

definition JobStatusPending :: string where
  "JobStatusPending = ''pending''"

text \<open>
  Modelled from the spec: the two pipeline kinds, Build and Deploy; the constants
  \<^verbatim>\<open>CommandKindBuild\<close> and \<^verbatim>\<open>CommandKindDeploy\<close> are used by job.go and declared elsewhere.
\<close>

datatype CommandKind = CommandKindBuild | CommandKindDeploy

text \<open>
  The struct \<^verbatim>\<open>Job\<close>. The types \<^verbatim>\<open>Repository\<close> and \<^verbatim>\<open>CommandLog\<close> of the package are declared
  in files other than job.go; they are the type parameters \<open>'r\<close> and \<open>'c\<close>.
\<close>

record ('r, 'c) Job =
  ID :: int64
  Cancelled :: bool
  TasksStarted :: Time
  TasksFinished :: Time
  DeployFinished :: Time
  Repository :: 'r
  RepositoryID :: int64
  Branch :: string
  Commit :: string
  CommitURL :: string
  Name :: string
  Email :: string
  CreatedAt :: Time
  UpdatedAt :: Time
  CommandLogs :: "'c list"

text \<open>
  What job.go calls and does not define: the query \<^verbatim>\<open>GetCommandLogsForJob(id)\<close> on the
  store, the method \<^verbatim>\<open>Passed()\<close> of a CommandLog, and the method
  \<^verbatim>\<open>GetCommands(branch, kind)\<close> of a Repository (\<open>'k\<close> is the type of a command). They are
  parameters of the model, collected in one record.
\<close>

record ('r, 'c, 'k) database =
  GetCommandLogsForJob :: "int64 \<Rightarrow> 'c list"
  CommandLog_Passed :: "'c \<Rightarrow> bool"
  Repository_GetCommands :: "'r \<Rightarrow> string \<Rightarrow> CommandKind \<Rightarrow> 'k list"

text \<open>The loop of \<^verbatim>\<open>Job.Passed\<close>: return false at the first log that did not pass.\<close>

fun Passed_range :: "('c \<Rightarrow> bool) \<Rightarrow> 'c list \<Rightarrow> bool" where
  "Passed_range p [] = True"
| "Passed_range p (c # logs) = (if \<not> p c then False else Passed_range p logs)"

definition Job_Passed :: "('r, 'c, 'k) database \<Rightarrow> ('r, 'c) Job \<Rightarrow> bool" where
  "Job_Passed db j =
     (let logs = GetCommandLogsForJob db (ID j)
      in Passed_range (CommandLog_Passed db) logs)"

definition Job_Status :: "('r, 'c, 'k) database \<Rightarrow> ('r, 'c) Job \<Rightarrow> string" where
  "Job_Status db j =
     (let n = Time_zero
      in if Time_After (TasksFinished j) n
         then (if Job_Passed db j then JobStatusSuccess else JobStatusError)
         else JobStatusPending)"

definition Job_ShouldBuild :: "('r, 'c, 'k) database \<Rightarrow> ('r, 'c) Job \<Rightarrow> bool" where
  "Job_ShouldBuild db j =
     (let commands = Repository_GetCommands db (Repository j) (Branch j) CommandKindBuild
      in if length commands > 0 then Job_Passed db j else False)"

definition Job_ShouldDeploy :: "('r, 'c, 'k) database \<Rightarrow> ('r, 'c) Job \<Rightarrow> bool" where
  "Job_ShouldDeploy db j =
     (let commands = Repository_GetCommands db (Repository j) (Branch j) CommandKindDeploy
      in if length commands > 0 then Job_Passed db j else False)"

definition Job_Done :: "('r, 'c, 'k) database \<Rightarrow> ('r, 'c) Job \<Rightarrow> bool" where
  "Job_Done db j =
     (if Job_ShouldDeploy db j \<and> \<not> Time_After (DeployFinished j) Time_zero then False
      else if \<not> Time_After (TasksFinished j) Time_zero then False
      else True)"

definition Job_IsRunning :: "('r, 'c, 'k) database \<Rightarrow> ('r, 'c) Job \<Rightarrow> bool" where
  "Job_IsRunning db j =
     (if Time_After (TasksStarted j) Time_zero \<and> \<not> Job_Done db j then True else False)"

text \<open>
  Modelled from the spec: a CommandLog records the pipeline kind of its command, and the
  build stage of a Job passed when every CommandLog of kind Build of that Job passed. The
  kind of a log is read by \<open>kind\<close>; no function of job.go reads it.
\<close>

definition build_stage_passed ::
  "('r, 'c, 'k) database \<Rightarrow> ('c \<Rightarrow> CommandKind) \<Rightarrow> ('r, 'c) Job \<Rightarrow> bool" where
  "build_stage_passed db kind j =
     list_all (\<lambda>c. CommandLog_Passed db c)
       (filter (\<lambda>c. kind c = CommandKindBuild) (GetCommandLogsForJob db (ID j)))"

subsection \<open>Concrete jobs\<close>

text \<open>
  A store whose CommandLogs are pairs of a kind and an outcome, and whose repositories are
  the lists of their deploy commands. Job 1 has no log, job 2 one passing build log, job 3
  two passing and one failing build log, job 4 a passing build log and a failing deploy log.
\<close>

definition store :: "(string list, CommandKind \<times> bool, string) database" where
  "store =
     \<lparr>GetCommandLogsForJob = (\<lambda>i.
        if i = 2 then [(CommandKindBuild, True)]
        else if i = 3 then [(CommandKindBuild, True), (CommandKindBuild, False), (CommandKindBuild, True)]
        else if i = 4 then [(CommandKindBuild, True), (CommandKindDeploy, False)]
        else []),
      CommandLog_Passed = snd,
      Repository_GetCommands = (\<lambda>r b k. if k = CommandKindDeploy then r else [''make''])\<rparr>"

definition example_job :: "int64 \<Rightarrow> Time \<Rightarrow> Time \<Rightarrow> Time \<Rightarrow> string list \<Rightarrow> (string list, CommandKind \<times> bool) Job" where
  "example_job i started finished deployed deploy_commands =
     \<lparr>ID = i, Cancelled = False, TasksStarted = started, TasksFinished = finished,
      DeployFinished = deployed, Repository = deploy_commands, RepositoryID = 1,
      Branch = ''main'', Commit = ''abc123'', CommitURL = '''', Name = '''', Email = '''',
      CreatedAt = 1, UpdatedAt = 1, CommandLogs = []\<rparr>"

section \<open>Package callbacks: the GitHub webhook (github.go)\<close>

text \<open>
  The structs of github.go. Field names that occur in several structs are told apart by
  the name of the struct, as in \<open>GitUser.Name\<close>. A Go \<^verbatim>\<open>int\<close> field is an \<open>int\<close>: no
  arithmetic is done on these fields.
\<close>

record GitHubUser =
  Name :: string
  Email :: string
  Username :: string

record Commit =
  Id :: string
  Distinct :: bool
  Message :: string
  Timestamp :: string
  Url :: string
  Author :: GitHubUser
  Committer :: GitHubUser
  Added :: "string list"
  Removed :: "string list"
  Modified :: "string list"

record GitUser =
  Name :: string
  Email :: string

record Repository =
  Id :: int64
  Name :: string
  Url :: string
  Description :: string
  Watchers :: int
  Stargazers :: int
  Forks :: int
  Size :: int
  Owner :: GitUser
  Private :: bool
  Open_issues :: int
  Has_issues :: bool
  Has_downloads :: bool
  Has_wiki :: bool
  Created_at :: int64
  Pushed_at :: int64
  Master_branch :: string

record GitHubCallback =
  Ref :: string
  After :: string
  Before :: string
  Created :: bool
  Deleted :: bool
  Forced :: bool
  Compare :: string
  Commits :: "Commit list"
  Head_commit :: Commit
  Repository :: Repository
  Pusher :: GitUser

text \<open>
  \<^verbatim>\<open>strings.Split(s, sep)\<close> for a separator of one byte, the only way github.go calls it:
  the pieces of \<open>s\<close> between the separators, one more than there are separators, so a
  single empty piece for the empty string. \<open>Split_from piece s sep\<close> scans \<open>s\<close> with the
  bytes of the current piece read so far in \<open>piece\<close>.
\<close>

fun Split_from :: "string \<Rightarrow> string \<Rightarrow> char \<Rightarrow> string list" where
  "Split_from piece [] sep = [piece]"
| "Split_from piece (c # s) sep =
     (if c = sep then piece # Split_from [] s sep else Split_from (piece @ [c]) s sep)"

definition Split :: "string \<Rightarrow> char \<Rightarrow> string list" where
  "Split s sep = Split_from [] s sep"

text \<open>
  A Go panic: the run-time error of an index expression out of range (the index and the
  length), or the value given to \<^verbatim>\<open>panic\<close>.
\<close>

datatype panic = IndexOutOfRange nat nat | PanicValue string

definition index :: "'a list \<Rightarrow> nat \<Rightarrow> panic + 'a" where
  "index s i = (if i < length s then Inr (s ! i) else Inl (IndexOutOfRange i (length s)))"

definition GitHubCallback_Branch :: "GitHubCallback \<Rightarrow> panic + string" where
  "GitHubCallback_Branch g = (let s = Split (Ref g) CHR ''/'' in index s 2)"

definition GitHubCallback_URL :: "GitHubCallback \<Rightarrow> string" where
  "GitHubCallback_URL g = Repository.Url (GitHubCallback.Repository g)"

definition GitHubCallback_By :: "GitHubCallback \<Rightarrow> string \<times> string" where
  "GitHubCallback_By g = (GitUser.Name (Pusher g), GitUser.Email (Pusher g))"

definition GitHubCallback_ShouldBuild :: "GitHubCallback \<Rightarrow> bool" where
  "GitHubCallback_ShouldBuild g = (if Deleted g = True then False else True)"

definition GitHubCallback_Commit :: "GitHubCallback \<Rightarrow> string" where
  "GitHubCallback_Commit g = Commit.Id (Head_commit g)"

text \<open>
  The fields of \<^verbatim>\<open>logging.Job\<close> that github.go and commentPR.go use; the package logging is
  not among the sources.
\<close>

record logging_Job =
  URL :: string
  Branch :: string
  Timestamp :: Time
  Commit :: string
  Name :: string
  Email :: string

text \<open>
  What the handler of a webhook can change: the build queue (the channel \<^verbatim>\<open>jobs\<close>, as the
  list of the jobs sent on it, oldest first) and the lines written to the log. A send on
  the channel is the job appended to the queue; that a send on a full channel waits is not
  modelled. \<^verbatim>\<open>log.Println\<close> writes its operands with spaces between them; the time stamp of
  the logger is left out.
\<close>

record handler =
  jobs :: "logging_Job list"
  log :: "string list"

fun Println :: "string list \<Rightarrow> string" where
  "Println [] = []"
| "Println [a] = a"
| "Println (a # b # as) = a @ '' '' @ Println (b # as)"

text \<open>
  \<^verbatim>\<open>parseGitHub\<close>. \<^verbatim>\<open>json.Unmarshal\<close> and \<^verbatim>\<open>time.Now()\<close> are parameters: \<open>Unmarshal body\<close> is the
  callback as the decoder leaves it and the error, if any. The result is the handler's new
  state and the panic the call ended with, if any. The job is built, and \<^verbatim>\<open>cb.Branch()\<close>
  evaluated, before the error is looked at; \<^verbatim>\<open>cb.Branch()\<close> in the last branch has the value
  it had the first time.
\<close>

definition parseGitHub ::
  "(string \<Rightarrow> GitHubCallback \<times> string option) \<Rightarrow> Time \<Rightarrow> handler \<Rightarrow> string \<Rightarrow>
   handler \<times> panic option" where
  "parseGitHub Unmarshal now h body =
     (let (cb, err) = Unmarshal body;
          (name, email) = GitHubCallback_By cb
      in case GitHubCallback_Branch cb of
           Inl p \<Rightarrow> (h, Some p)
         | Inr branch \<Rightarrow>
             (let j = \<lparr>URL = GitHubCallback_URL cb, Branch = branch, Timestamp = now,
                       Commit = GitHubCallback_Commit cb, Name = name, Email = email\<rparr>
              in if err \<noteq> None
                 then (h\<lparr>log := log h @ [body]\<rparr>, Some (PanicValue ''Could not unmarshal request''))
                 else if GitHubCallback_ShouldBuild cb = True
                 then (h\<lparr>jobs := jobs h @ [j]\<rparr>, None)
                 else (h\<lparr>log := log h @
                         [Println [''Not adding'', GitHubCallback_URL cb, branch, ''to build queue'']]\<rparr>,
                       None)))"

subsection \<open>Concrete payloads\<close>

definition no_user :: GitHubUser where
  "no_user = \<lparr>GitHubUser.Name = '''', GitHubUser.Email = '''', Username = ''''\<rparr>"

definition commit :: "string \<Rightarrow> Commit" where
  "commit i = \<lparr>Commit.Id = i, Distinct = False, Message = '''', Commit.Timestamp = '''',
     Commit.Url = '''',
     Author = no_user, Committer = no_user, Added = [], Removed = [], Modified = []\<rparr>"

definition repository :: "string \<Rightarrow> Repository" where
  "repository u = \<lparr>Repository.Id = 0, Repository.Name = '''', Repository.Url = u,
     Description = '''', Watchers = 0, Stargazers = 0, Forks = 0, Size = 0,
     Owner = \<lparr>GitUser.Name = '''', GitUser.Email = ''''\<rparr>, Private = False, Open_issues = 0,
     Has_issues = False, Has_downloads = False, Has_wiki = False, Created_at = 0,
     Pushed_at = 0, Master_branch = ''''\<rparr>"

text \<open>A push of commit \<open>c\<close> to reference \<open>r\<close> of repository \<open>u\<close>; \<open>d\<close> is the Deleted flag.\<close>

definition callback :: "string \<Rightarrow> bool \<Rightarrow> string \<Rightarrow> string \<Rightarrow> GitHubCallback" where
  "callback r d c u = \<lparr>Ref = r, After = c, Before = '''', Created = False, Deleted = d,
     Forced = False, Compare = '''', Commits = [], Head_commit = commit c,
     GitHubCallback.Repository = repository u,
     Pusher = \<lparr>GitUser.Name = ''ann'', GitUser.Email = ''ann@example.org''\<rparr>\<rparr>"

text \<open>
  A decoder for four bodies. The first two stand for a push and for the deletion of a
  branch. The body \<open>{\<close> is not JSON: the decoder leaves the callback at its zero value. The
  body \<open>type\<close> stands for one with a field of the wrong type: the decoder fills in the other
  fields and reports the error.
\<close>

definition zero_callback :: GitHubCallback where
  "zero_callback = \<lparr>Ref = '''', After = '''', Before = '''', Created = False, Deleted = False,
     Forced = False, Compare = '''', Commits = [], Head_commit = commit '''',
     GitHubCallback.Repository = repository '''',
     Pusher = \<lparr>GitUser.Name = '''', GitUser.Email = ''''\<rparr>\<rparr>"

definition decode :: "string \<Rightarrow> GitHubCallback \<times> string option" where
  "decode body =
     (if body = ''push'' then (callback ''refs/heads/main'' False ''abc123'' ''url'', None)
      else if body = ''delete'' then (callback ''refs/heads/main'' True ''abc123'' ''url'', None)
      else if body = ''type'' then
        (callback ''refs/heads/main'' False ''abc123'' ''url'',
         Some ''json: cannot unmarshal string into Go value of type bool'')
      else (zero_callback, Some ''unexpected end of JSON input''))"

definition idle :: handler where
  "idle = \<lparr>jobs = [], log = []\<rparr>"

section \<open>Package notification: the HipChat sink (hipchat.go)\<close>

text \<open>
  The fields of \<^verbatim>\<open>notification\<close> that hipchat.go reads; the struct is declared in another
  file of the package.
\<close>

record notification =
  rendered :: string
  Status :: bool

record hipchatPayload =
  Room :: string
  From :: string
  Color :: string
  Message :: string
  Notify :: bool
  Format :: string
  Status :: bool

subsection \<open>The library functions hipchat.go calls\<close>

text \<open>
  \<^verbatim>\<open>url.QueryEscape\<close>: a letter, a digit and the bytes \<open>-\<close>, \<open>_\<close>, \<open>.\<close>, \<open>~\<close> stay; a space
  becomes \<open>+\<close>; every other byte becomes \<open>%\<close> and its two hexadecimal digits in upper case.
\<close>

definition upperhex :: string where
  "upperhex = ''0123456789ABCDEF''"

definition shouldEscape :: "char \<Rightarrow> bool" where
  "shouldEscape c =
     (if (CHR ''a'' \<le> c \<and> c \<le> CHR ''z'') \<or> (CHR ''A'' \<le> c \<and> c \<le> CHR ''Z'') \<or>
         (CHR ''0'' \<le> c \<and> c \<le> CHR ''9'') then False
      else if c = CHR ''-'' \<or> c = CHR ''_'' \<or> c = CHR ''.'' \<or> c = CHR ''~'' then False
      else True)"

fun QueryEscape :: "string \<Rightarrow> string" where
  "QueryEscape [] = []"
| "QueryEscape (c # s) =
     (if c = CHR '' '' then CHR ''+'' # QueryEscape s
      else if shouldEscape c
      then CHR ''%'' # upperhex ! (of_char c div 16) # upperhex ! (of_char c mod 16) # QueryEscape s
      else c # QueryEscape s)"

text \<open>
  \<^verbatim>\<open>url.Values\<close> is a map from a key to the list of its values: here an association list in
  which a key occurs once. \<^verbatim>\<open>Add\<close> appends a value to the list of its key. \<^verbatim>\<open>Encode\<close> goes
  through the keys in sorted order and writes \<open>key=value\<close> for each value, both escaped,
  with \<open>&\<close> before each pair but the first.
\<close>

type_synonym Values = "(string \<times> string list) list"

fun Values_Add :: "Values \<Rightarrow> string \<Rightarrow> string \<Rightarrow> Values" where
  "Values_Add [] key value = [(key, [value])]"
| "Values_Add ((k, vs) # d) key value =
     (if k = key then (k, vs @ [value]) # d else (k, vs) # Values_Add d key value)"

fun Encode_values :: "string \<Rightarrow> string \<Rightarrow> string list \<Rightarrow> string" where
  "Encode_values buf keyEscaped [] = buf"
| "Encode_values buf keyEscaped (v # vs) =
     Encode_values
       ((if length buf > 0 then buf @ ''&'' else buf) @ keyEscaped @ ''='' @ QueryEscape v)
       keyEscaped vs"

fun Encode_keys :: "string \<Rightarrow> Values \<Rightarrow> string" where
  "Encode_keys buf [] = buf"
| "Encode_keys buf ((k, vs) # d) = Encode_keys (Encode_values buf (QueryEscape k) vs) d"

definition Values_Encode :: "Values \<Rightarrow> string" where
  "Values_Encode d = Encode_keys [] (sort_key fst d)"

text \<open>\<^verbatim>\<open>fmt.Sprintf\<close> for a format with the one verb \<open>%s\<close> and one string operand.\<close>

fun Sprintf :: "string \<Rightarrow> string \<Rightarrow> string" where
  "Sprintf [] a = []"
| "Sprintf (c # f) a =
     (if c = CHR ''%'' \<and> take 1 f = ''s'' then a @ drop 1 f else c # Sprintf f a)"

subsection \<open>hipchat.go\<close>

definition api :: string where
  "api = ''https://www.hipchat.com/v1/rooms/message?auth_token=%s''"

definition hipchatPayload_toURLEncoded :: "hipchatPayload \<Rightarrow> string" where
  "hipchatPayload_toURLEncoded h =
     (let d = [];
          d = Values_Add d ''room_id'' (Room h);
          d = Values_Add d ''from'' (From h);
          d = Values_Add d ''message'' (hipchatPayload.Message h);
          d = Values_Add d ''message_format'' (Format h);
          d = (if Notify h = True then Values_Add d ''notify'' ''1''
               else Values_Add d ''notify'' ''2'');
          d = (if hipchatPayload.Status h = True then Values_Add d ''color'' ''green''
               else Values_Add d ''color'' ''red'')
      in Values_Encode d)"

definition notToHipChapt :: "notification \<Rightarrow> string \<Rightarrow> hipchatPayload" where
  "notToHipChapt n channel =
     \<lparr>Room = channel, From = ''Leeroy'', Color = ''green'', Message = rendered n,
      Notify = True, Format = ''text'', Status = notification.Status n\<rparr>"

text \<open>
  How a call of a sink ends: it returns, or the process exits with a status
  (\<^verbatim>\<open>log.Fatalln\<close> writes the log line and calls \<^verbatim>\<open>os.Exit(1)\<close>).
\<close>

datatype outcome = Returned | Exited nat

text \<open>
  \<^verbatim>\<open>hipchat\<close>. \<^verbatim>\<open>http.Post\<close> is a parameter: from the URL, the content type and the body to
  the error, if any. The result is the log after the call and how the call ended. The Job
  is not among the operands.
\<close>

definition hipchat ::
  "(string \<Rightarrow> string \<Rightarrow> string \<Rightarrow> string option) \<Rightarrow> string list \<Rightarrow>
   notification \<Rightarrow> string \<Rightarrow> string \<Rightarrow> string list \<times> outcome" where
  "hipchat http_Post lg n key chl =
     (let e = Sprintf api key;
          p = notToHipChapt n chl;
          err = http_Post e ''application/x-www-form-urlencoded'' (hipchatPayload_toURLEncoded p)
      in case err of
           Some msg \<Rightarrow> (lg @ [msg], Returned)
         | None \<Rightarrow> (lg, Returned))"

section \<open>Package github: the comment on a pull request (commentPR.go)\<close>

record comment =
  Body :: string

text \<open>The fields of \<^verbatim>\<open>PRCallback\<close> that commentPR.go reads.\<close>

record PullRequest =
  CommentsURL :: string

record PRCallback =
  PR :: PullRequest

text \<open>
  What commentPR.go uses and does not define: the methods \<^verbatim>\<open>Success()\<close> and \<^verbatim>\<open>Hex()\<close> of a
  \<^verbatim>\<open>logging.Job\<close>, the URL of \<^verbatim>\<open>database.GetConfig()\<close>, the access key of
  \<^verbatim>\<open>database.RepositoryForURL(url)\<close>, \<^verbatim>\<open>json.Marshal\<close> (the bytes and the error, if any),
  \<^verbatim>\<open>githubRequest\<close> (the error, if any), and the variable \<^verbatim>\<open>err\<close> that \<^verbatim>\<open>PostPR\<close> tests before
  it declares one of its own.
\<close>

record github_env =
  logging_Job_Success :: "logging_Job \<Rightarrow> bool"
  logging_Job_Hex :: "logging_Job \<Rightarrow> string"
  GetConfig_URL :: string
  RepositoryForURL_AccessKey :: "string \<Rightarrow> string"
  package_err :: "string option"
  json_Marshal :: "comment \<Rightarrow> string \<times> string option"
  githubRequest :: "string \<Rightarrow> string \<Rightarrow> string \<Rightarrow> string \<Rightarrow> string option"

definition newComment :: "github_env \<Rightarrow> logging_Job \<Rightarrow> string \<Rightarrow> comment" where
  "newComment env job base =
     (let c = \<lparr>Body = ''''\<rparr>
      in if logging_Job_Success env job then c\<lparr>Body := ''build successful''\<rparr>
         else
           (let c = c\<lparr>Body := ''build failed - <a href='' @ [CHR 0x27]\<rparr>;
                c = c\<lparr>Body := Body c @ base @ ''status/commit/''\<rparr>;
                c = c\<lparr>Body := Body c @ logging_Job_Hex env job @ ''/'' @ logging_Job.Commit job\<rparr>;
                c = c\<lparr>Body := Body c @ [CHR 0x27] @ ''>show log</a>''\<rparr>
            in c))"

text \<open>
  \<^verbatim>\<open>PostPR\<close>: the log after the call and how the call ended. Each of its three error
  branches is \<^verbatim>\<open>log.Fatalln(err)\<close>.
\<close>

definition PostPR ::
  "github_env \<Rightarrow> string list \<Rightarrow> logging_Job \<Rightarrow> PRCallback \<Rightarrow> string list \<times> outcome" where
  "PostPR env lg job pc =
     (let c_URL = GetConfig_URL env;
          comment = newComment env job c_URL;
          rp_AccessKey = RepositoryForURL_AccessKey env (logging_Job.URL job)
      in case package_err env of
           Some msg \<Rightarrow> (lg @ [msg], Exited 1)
         | None \<Rightarrow>
             (let (m, err) = json_Marshal env comment
              in case err of
                   Some msg \<Rightarrow> (lg @ [msg], Exited 1)
                 | None \<Rightarrow>
                     (case githubRequest env ''POST'' (CommentsURL (PR pc)) rp_AccessKey m of
                        Some msg \<Rightarrow> (lg @ [msg], Exited 1)
                      | None \<Rightarrow> (lg, Returned))))"

subsection \<open>Concrete notifications\<close>

definition notice :: "bool \<Rightarrow> notification" where
  "notice s = \<lparr>rendered = ''main: build & deploy'', Status = s\<rparr>"

text \<open>A network that refuses every connection, and one that delivers.\<close>

definition refuse :: "string \<Rightarrow> string \<Rightarrow> string \<Rightarrow> string option" where
  "refuse u t b = Some ''connection refused''"

definition deliver :: "string \<Rightarrow> string \<Rightarrow> string \<Rightarrow> string option" where
  "deliver u t b = None"

definition pushed :: logging_Job where
  "pushed = \<lparr>URL = ''url'', Branch = ''main'', Timestamp = 5, Commit = ''abc123'',
     Name = ''ann'', Email = ''ann@example.org''\<rparr>"

definition pull :: PRCallback where
  "pull = \<lparr>PR = \<lparr>CommentsURL = ''https://api.github.com/repos/o/r/issues/1/comments''\<rparr>\<rparr>"

text \<open>
  An environment in which the configuration and the access key are found and the comment
  is serialized; \<open>request\<close> is the error of the request to GitHub, if any.
\<close>

definition github :: "string option \<Rightarrow> github_env" where
  "github request =
     \<lparr>logging_Job_Success = (\<lambda>j. True), logging_Job_Hex = (\<lambda>j. ''75726c''),
      GetConfig_URL = ''https://ci.example.org/'',
      RepositoryForURL_AccessKey = (\<lambda>u. ''key''), package_err = None,
      json_Marshal = (\<lambda>c. (Body c, None)),
      githubRequest = (\<lambda>m u k b. request)\<rparr>"

section \<open>Properties of the Job predicates\<close>

lemma Passed_range_iff: "Passed_range p logs \<longleftrightarrow> (\<forall>c \<in> set logs. p c)"
  by (induction logs) auto

lemma Job_Passed_iff:
  "Job_Passed db j \<longleftrightarrow> (\<forall>c \<in> set (GetCommandLogsForJob db (ID j)). CommandLog_Passed db c)"
  by (simp add: Job_Passed_def Passed_range_iff)

lemma JobStatus_distinct:
  "JobStatusSuccess \<noteq> JobStatusError" "JobStatusSuccess \<noteq> JobStatusPending"
  "JobStatusError \<noteq> JobStatusPending"
  by (simp_all add: JobStatusSuccess_def JobStatusError_def JobStatusPending_def)

text \<open>
  The timestamps the code writes are \<^verbatim>\<open>time.Now()\<close>, never before the zero instant; for
  such a timestamp "after the zero instant" and "not the zero value" are the same.
\<close>

lemma Time_After_zero_iff:
  "Time_zero \<le> t \<Longrightarrow> Time_After t Time_zero \<longleftrightarrow> t \<noteq> Time_zero"
  by (auto simp: Time_After_def)

text \<open>
  Claim C1. \<^verbatim>\<open>Status()\<close> is Pending exactly when \<^verbatim>\<open>TasksFinished\<close> is unset, which the code
  tests as: not after the zero instant; for a timestamp that is not before the zero instant
  that is: equal to the zero value. When \<^verbatim>\<open>TasksFinished\<close> is set, the status is Success
  exactly when every CommandLog the store holds for the Job passed, and Error exactly when
  one did not. The logs are any list: none, one or many.
\<close>

theorem Job_Status_spec:
  "(Job_Status db j = JobStatusPending \<longleftrightarrow> \<not> Time_After (TasksFinished j) Time_zero) \<and>
   (Time_zero \<le> TasksFinished j \<longrightarrow>
      (Job_Status db j = JobStatusPending \<longleftrightarrow> TasksFinished j = Time_zero)) \<and>
   (Time_After (TasksFinished j) Time_zero \<longrightarrow>
      (Job_Status db j = JobStatusSuccess \<longleftrightarrow>
         (\<forall>c \<in> set (GetCommandLogsForJob db (ID j)). CommandLog_Passed db c)) \<and>
      (Job_Status db j = JobStatusError \<longleftrightarrow>
         \<not> (\<forall>c \<in> set (GetCommandLogsForJob db (ID j)). CommandLog_Passed db c)))"
proof -
  have pending: "Job_Status db j = JobStatusPending \<longleftrightarrow> \<not> Time_After (TasksFinished j) Time_zero"
    using JobStatus_distinct by (simp add: Job_Status_def)
  have finished: "Job_Status db j = (if Job_Passed db j then JobStatusSuccess else JobStatusError)"
    if "Time_After (TasksFinished j) Time_zero"
    using that by (simp add: Job_Status_def)
  show ?thesis
    using pending finished JobStatus_distinct Time_After_zero_iff [of "TasksFinished j"]
    by (simp add: Job_Passed_iff)
qed

theorem Job_Status_spec_witness:
  "Job_Status store (example_job 1 1 0 0 []) = JobStatusPending \<and>
   Job_Status store (example_job 1 1 2 0 []) = JobStatusSuccess \<and>
   Job_Status store (example_job 2 1 2 0 []) = JobStatusSuccess \<and>
   Job_Status store (example_job 3 1 2 0 []) = JobStatusError"
  using Job_Status_spec [of store "example_job 1 1 0 0 []"] Job_Status_spec [of store "example_job 1 1 2 0 []"]
    Job_Status_spec [of store "example_job 2 1 2 0 []"] Job_Status_spec [of store "example_job 3 1 2 0 []"]
  by (simp add: store_def example_job_def Time_After_def Time_zero_def)

text \<open>
  Claim C2. \<^verbatim>\<open>Done()\<close> is true exactly when \<^verbatim>\<open>TasksFinished\<close> is set and either
  \<^verbatim>\<open>ShouldDeploy()\<close> is false or \<^verbatim>\<open>DeployFinished\<close> is set.
\<close>

theorem Job_Done_spec:
  "Job_Done db j \<longleftrightarrow>
     Time_After (TasksFinished j) Time_zero \<and>
     (\<not> Job_ShouldDeploy db j \<or> Time_After (DeployFinished j) Time_zero)"
  by (auto simp: Job_Done_def)

theorem Job_Done_spec_witness:
  "Job_Done store (example_job 2 1 2 0 []) \<and> Job_Done store (example_job 2 1 2 3 [''deploy'']) \<and>
   \<not> Job_Done store (example_job 2 1 2 0 [''deploy'']) \<and> \<not> Job_Done store (example_job 2 1 0 0 [])"
  using Job_Done_spec [of store "example_job 2 1 2 0 []"] Job_Done_spec [of store "example_job 2 1 2 3 [''deploy'']"]
    Job_Done_spec [of store "example_job 2 1 2 0 [''deploy'']"] Job_Done_spec [of store "example_job 2 1 0 0 []"]
  by (simp add: Job_ShouldDeploy_def Job_Passed_def store_def example_job_def Time_After_def Time_zero_def)

text \<open>
  Claim C3, as the code has it. \<^verbatim>\<open>IsRunning()\<close> is true exactly when \<^verbatim>\<open>TasksStarted\<close> is set
  and \<^verbatim>\<open>Done()\<close> is false. A Job whose build stage has finished and passed and whose deploy
  stage has not finished is running and has status Success: the claim fails there.
\<close>

theorem Job_IsRunning_Success_counterexample:
  "Job_IsRunning store (example_job 2 1 2 0 [''deploy'']) \<and>
   Job_Status store (example_job 2 1 2 0 [''deploy'']) = JobStatusSuccess"
  by (simp add: Job_IsRunning_def Job_Done_def Job_ShouldDeploy_def Job_Status_def
      Job_Passed_def store_def example_job_def Time_After_def Time_zero_def)

text \<open>
  Claim C3, amended. \<^verbatim>\<open>IsRunning()\<close> is true exactly when \<^verbatim>\<open>TasksStarted\<close> is set and
  \<^verbatim>\<open>Done()\<close> is false. \<^verbatim>\<open>IsRunning()\<close> and status Success hold together exactly in the deploy
  stage: \<^verbatim>\<open>TasksStarted\<close> and \<^verbatim>\<open>TasksFinished\<close> set, \<^verbatim>\<open>ShouldDeploy()\<close> true and
  \<^verbatim>\<open>DeployFinished\<close> unset. For a Job with \<^verbatim>\<open>ShouldDeploy()\<close> false or \<^verbatim>\<open>DeployFinished\<close>
  set they never hold together.
\<close>

theorem Job_IsRunning_Success_iff:
  "(Job_IsRunning db j \<longleftrightarrow> Time_After (TasksStarted j) Time_zero \<and> \<not> Job_Done db j) \<and>
   (Job_IsRunning db j \<and> Job_Status db j = JobStatusSuccess \<longleftrightarrow>
      Time_After (TasksStarted j) Time_zero \<and> Time_After (TasksFinished j) Time_zero \<and>
      Job_ShouldDeploy db j \<and> \<not> Time_After (DeployFinished j) Time_zero) \<and>
   (\<not> Job_ShouldDeploy db j \<or> Time_After (DeployFinished j) Time_zero \<longrightarrow>
      \<not> (Job_IsRunning db j \<and> Job_Status db j = JobStatusSuccess))"
proof -
  have running: "Job_IsRunning db j \<longleftrightarrow> Time_After (TasksStarted j) Time_zero \<and> \<not> Job_Done db j"
    by (simp add: Job_IsRunning_def)
  have passed: "Job_ShouldDeploy db j \<Longrightarrow> Job_Passed db j"
    by (simp add: Job_ShouldDeploy_def split: if_splits)
  have success: "Job_Status db j = JobStatusSuccess \<longleftrightarrow>
      Time_After (TasksFinished j) Time_zero \<and> Job_Passed db j"
    using JobStatus_distinct by (simp add: Job_Status_def)
  have finished: "Job_Done db j \<longleftrightarrow> Time_After (TasksFinished j) Time_zero \<and>
      (\<not> Job_ShouldDeploy db j \<or> Time_After (DeployFinished j) Time_zero)"
    by (auto simp: Job_Done_def)
  show ?thesis
    using passed by (auto simp: running success finished)
qed

theorem Job_IsRunning_Success_iff_witness:
  "\<not> Job_IsRunning store (example_job 2 1 2 0 []) \<and> Job_Status store (example_job 2 1 2 0 []) = JobStatusSuccess \<and>
   \<not> Job_IsRunning store (example_job 2 1 2 3 [''deploy'']) \<and>
   Job_IsRunning store (example_job 3 1 0 0 [''deploy'']) \<and>
   Job_Status store (example_job 3 1 0 0 [''deploy'']) \<noteq> JobStatusSuccess"
  using Job_IsRunning_Success_iff [of store "example_job 2 1 2 0 []"]
    Job_IsRunning_Success_iff [of store "example_job 2 1 2 3 [''deploy'']"]
    Job_IsRunning_Success_iff [of store "example_job 3 1 0 0 [''deploy'']"]
  by (simp add: Job_Done_def Job_Status_def Job_ShouldDeploy_def Job_Passed_def store_def example_job_def
      Time_After_def Time_zero_def JobStatusSuccess_def JobStatusPending_def)

text \<open>
  Claim C4, as the code has it. \<^verbatim>\<open>ShouldDeploy()\<close> asks \<^verbatim>\<open>Passed()\<close>, which reads every
  CommandLog of the Job, those of the deploy stage too. Job 4 has a deploy command
  configured and its build stage passed, but its deploy command failed:
  \<^verbatim>\<open>ShouldDeploy()\<close> is false.
\<close>

theorem Job_ShouldDeploy_counterexample:
  "length (Repository_GetCommands store (Job.Repository (example_job 4 1 2 0 [''deploy'']))
      (Job.Branch (example_job 4 1 2 0 [''deploy''])) CommandKindDeploy) = 1 \<and>
   build_stage_passed store fst (example_job 4 1 2 0 [''deploy'']) \<and>
   \<not> Job_ShouldDeploy store (example_job 4 1 2 0 [''deploy''])"
  by (simp add: Job_ShouldDeploy_def Job_Passed_def build_stage_passed_def store_def example_job_def)

text \<open>
  Claim C4, amended. \<^verbatim>\<open>ShouldDeploy()\<close> is true exactly when at least one deploy command is
  configured for the Job's branch and every CommandLog of the Job, of either stage, passed.
  While all CommandLogs of the Job are of the build stage, that is: at least one deploy
  command is configured and the build stage passed. With no deploy command configured
  \<^verbatim>\<open>ShouldDeploy()\<close> is false whatever the logs.
\<close>

theorem Job_ShouldDeploy_spec:
  "(Job_ShouldDeploy db j \<longleftrightarrow>
      Repository_GetCommands db (Job.Repository j) (Job.Branch j) CommandKindDeploy \<noteq> [] \<and>
      (\<forall>c \<in> set (GetCommandLogsForJob db (ID j)). CommandLog_Passed db c)) \<and>
   ((\<forall>c \<in> set (GetCommandLogsForJob db (ID j)). kind c = CommandKindBuild) \<longrightarrow>
      (Job_ShouldDeploy db j \<longleftrightarrow>
         Repository_GetCommands db (Job.Repository j) (Job.Branch j) CommandKindDeploy \<noteq> [] \<and>
         build_stage_passed db kind j)) \<and>
   (Repository_GetCommands db (Job.Repository j) (Job.Branch j) CommandKindDeploy = [] \<longrightarrow>
      \<not> Job_ShouldDeploy db j)"
proof -
  have code: "Job_ShouldDeploy db j \<longleftrightarrow>
      Repository_GetCommands db (Job.Repository j) (Job.Branch j) CommandKindDeploy \<noteq> [] \<and>
      (\<forall>c \<in> set (GetCommandLogsForJob db (ID j)). CommandLog_Passed db c)"
    by (simp add: Job_ShouldDeploy_def Job_Passed_iff)
  have stage: "build_stage_passed db kind j \<longleftrightarrow>
      (\<forall>c \<in> set (GetCommandLogsForJob db (ID j)). CommandLog_Passed db c)"
    if "\<forall>c \<in> set (GetCommandLogsForJob db (ID j)). kind c = CommandKindBuild"
    using that by (auto simp: build_stage_passed_def list_all_iff)
  show ?thesis
    using code stage by blast
qed

theorem Job_ShouldDeploy_spec_witness:
  "Job_ShouldDeploy store (example_job 2 1 2 0 [''deploy'']) \<and>
   build_stage_passed store fst (example_job 2 1 2 0 [''deploy'']) \<and>
   \<not> Job_ShouldDeploy store (example_job 3 1 2 0 [''deploy'']) \<and>
   \<not> Job_ShouldDeploy store (example_job 2 1 2 0 [])"
  using Job_ShouldDeploy_spec [of store "example_job 2 1 2 0 [''deploy'']" fst]
    Job_ShouldDeploy_spec [of store "example_job 3 1 2 0 [''deploy'']" fst]
    Job_ShouldDeploy_spec [of store "example_job 2 1 2 0 []" fst]
  by (simp add: build_stage_passed_def store_def example_job_def)

section \<open>Properties of the webhook normalizer\<close>

lemma length_Split_from: "length (Split_from piece s sep) = Suc (count_list s sep)"
  by (induction s arbitrary: piece) auto

lemma length_Split: "length (Split s sep) = Suc (count_list s sep)"
  by (simp add: Split_def length_Split_from)

lemma Split_not_Nil: "Split s sep \<noteq> []"
  using length_Split [of s sep] by auto

lemma GitHubCallback_Branch_cases:
  "GitHubCallback_Branch g =
     (if 2 \<le> count_list (Ref g) CHR ''/'' then Inr (Split (Ref g) CHR ''/'' ! 2)
      else Inl (IndexOutOfRange 2 (Suc (count_list (Ref g) CHR ''/''))))"
  by (auto simp: GitHubCallback_Branch_def index_def length_Split Let_def)

text \<open>
  On a reference of exactly three segments, such as \<open>refs/heads/main\<close>, the segment at
  index 2 is the last one.
\<close>

lemma GitHubCallback_Branch_three_segments:
  assumes "count_list (Ref g) CHR ''/'' = 2"
  shows "GitHubCallback_Branch g = Inr (last (Split (Ref g) CHR ''/''))"
proof -
  have "length (Split (Ref g) CHR ''/'') = 3"
    using assms by (simp add: length_Split)
  then have "last (Split (Ref g) CHR ''/'') = Split (Ref g) CHR ''/'' ! 2"
    by (simp add: last_conv_nth Split_not_Nil)
  with assms show ?thesis
    by (simp add: GitHubCallback_Branch_cases)
qed

text \<open>
  Claim C5. The branch is to be the final path segment of the reference, for a reference
  of any number of segments. \<^verbatim>\<open>Branch()\<close> returns the segment at index 2: for the reference
  \<open>refs/heads/feature/x\<close> of the claim it returns \<open>feature\<close>, and the final segment is \<open>x\<close>.
\<close>

theorem GitHubCallback_Branch_feature_x:
  "GitHubCallback_Branch (callback ''refs/heads/feature/x'' False ''abc123'' ''url'') = Inr ''feature'' \<and>
   last (Split (Ref (callback ''refs/heads/feature/x'' False ''abc123'' ''url'')) CHR ''/'') = ''x''"
  by (simp add: GitHubCallback_Branch_def index_def callback_def Split_def)

text \<open>
  Claim C10. \<^verbatim>\<open>Branch()\<close> splits \<^verbatim>\<open>Ref\<close> at every \<open>/\<close> and reads the piece at index 2. The
  pieces are one more than the separators, so the read is in bounds exactly when \<^verbatim>\<open>Ref\<close>
  holds at least two separators; with fewer, the empty \<^verbatim>\<open>Ref\<close> among them, the call panics
  with an index out of range.
\<close>

theorem GitHubCallback_Branch_in_bounds_iff:
  "length (Split (Ref g) CHR ''/'') = Suc (count_list (Ref g) CHR ''/'') \<and>
   ((\<exists>b. GitHubCallback_Branch g = Inr b) \<longleftrightarrow> 2 \<le> count_list (Ref g) CHR ''/'') \<and>
   (count_list (Ref g) CHR ''/'' < 2 \<longrightarrow>
      GitHubCallback_Branch g = Inl (IndexOutOfRange 2 (length (Split (Ref g) CHR ''/''))))"
  by (simp add: GitHubCallback_Branch_cases length_Split)

theorem GitHubCallback_Branch_in_bounds_iff_witness:
  "GitHubCallback_Branch zero_callback = Inl (IndexOutOfRange 2 1) \<and>
   GitHubCallback_Branch (callback ''refs/heads'' False ''abc123'' ''url'') = Inl (IndexOutOfRange 2 2) \<and>
   (\<exists>b. GitHubCallback_Branch (callback ''refs/heads/main'' False ''abc123'' ''url'') = Inr b)"
  using GitHubCallback_Branch_in_bounds_iff [of zero_callback]
    GitHubCallback_Branch_in_bounds_iff [of "callback ''refs/heads'' False ''abc123'' ''url''"]
    GitHubCallback_Branch_in_bounds_iff [of "callback ''refs/heads/main'' False ''abc123'' ''url''"]
  by (simp add: zero_callback_def callback_def)

lemma parseGitHub_cases:
  "parseGitHub Unmarshal now h body =
     (case GitHubCallback_Branch (fst (Unmarshal body)) of
        Inl p \<Rightarrow> (h, Some p)
      | Inr branch \<Rightarrow>
          if snd (Unmarshal body) \<noteq> None
          then (h\<lparr>log := log h @ [body]\<rparr>, Some (PanicValue ''Could not unmarshal request''))
          else if \<not> Deleted (fst (Unmarshal body))
          then (h\<lparr>jobs := jobs h @
                  [\<lparr>URL = GitHubCallback_URL (fst (Unmarshal body)), Branch = branch, Timestamp = now,
                    Commit = GitHubCallback_Commit (fst (Unmarshal body)),
                    Name = fst (GitHubCallback_By (fst (Unmarshal body))),
                    Email = snd (GitHubCallback_By (fst (Unmarshal body)))\<rparr>]\<rparr>, None)
          else (h\<lparr>log := log h @
                  [Println [''Not adding'', GitHubCallback_URL (fst (Unmarshal body)), branch,
                     ''to build queue'']]\<rparr>, None))"
  by (simp add: parseGitHub_def GitHubCallback_ShouldBuild_def Let_def split_beta
      split: sum.splits)

text \<open>
  Claim C6. \<^verbatim>\<open>ShouldBuild()\<close> is false when the Deleted flag of the callback is set and true
  when it is unset. For a body that decodes to a callback with the flag set, \<^verbatim>\<open>parseGitHub\<close>
  leaves the build queue as it was, however the call ends.
\<close>

theorem parseGitHub_Deleted:
  "(Deleted cb \<longrightarrow> GitHubCallback_ShouldBuild cb = False) \<and>
   (\<not> Deleted cb \<longrightarrow> GitHubCallback_ShouldBuild cb = True) \<and>
   (Deleted (fst (Unmarshal body)) \<longrightarrow> jobs (fst (parseGitHub Unmarshal now h body)) = jobs h)"
  by (simp add: parseGitHub_cases GitHubCallback_ShouldBuild_def split: sum.splits)

theorem parseGitHub_Deleted_witness:
  "Deleted (fst (decode ''delete'')) \<and>
   GitHubCallback_ShouldBuild (fst (decode ''delete'')) = False \<and>
   jobs (fst (parseGitHub decode 5 idle ''delete'')) = [] \<and>
   \<not> Deleted (fst (decode ''push'')) \<and>
   GitHubCallback_ShouldBuild (fst (decode ''push'')) = True"
  using parseGitHub_Deleted [of "fst (decode ''delete'')" decode "''delete''" 5 idle]
    parseGitHub_Deleted [of "fst (decode ''push'')" decode "''push''" 5 idle]
  by (simp add: decode_def callback_def idle_def)

text \<open>
  Claim C7, as the code has it. A body that is not JSON leaves the callback at its zero
  value, with an empty \<^verbatim>\<open>Ref\<close>. \<^verbatim>\<open>parseGitHub\<close> does not return: it ends in a panic, here the
  one of \<^verbatim>\<open>Branch()\<close>, before anything is logged.
\<close>

theorem parseGitHub_malformed_counterexample:
  "snd (decode ''{'') \<noteq> None \<and>
   parseGitHub decode 5 idle ''{'' = (idle, Some (IndexOutOfRange 2 1))"
  by (simp add: parseGitHub_cases decode_def zero_callback_def GitHubCallback_Branch_def index_def
      Split_def)

text \<open>
  Claim C7, amended. For every body that cannot be parsed, no job is queued and
  \<^verbatim>\<open>parseGitHub\<close> does not return normally: it ends in a panic. When \<^verbatim>\<open>Branch()\<close> of the
  callback the decoder left is in bounds, the body is logged and the panic is the one raised
  for the error, with the value \<open>Could not unmarshal request\<close>.
\<close>

theorem parseGitHub_malformed:
  assumes "snd (Unmarshal body) \<noteq> None"
  shows "jobs (fst (parseGitHub Unmarshal now h body)) = jobs h \<and>
    snd (parseGitHub Unmarshal now h body) \<noteq> None \<and>
    (2 \<le> count_list (Ref (fst (Unmarshal body))) CHR ''/'' \<longrightarrow>
       parseGitHub Unmarshal now h body =
         (h\<lparr>log := log h @ [body]\<rparr>, Some (PanicValue ''Could not unmarshal request'')))"
  using assms
  by (simp add: parseGitHub_cases GitHubCallback_Branch_cases split: sum.splits)

theorem parseGitHub_malformed_witness:
  "snd (decode ''type'') \<noteq> None \<and>
   parseGitHub decode 5 idle ''type'' =
     (\<lparr>jobs = [], log = [''type'']\<rparr>, Some (PanicValue ''Could not unmarshal request''))"
  using parseGitHub_malformed [of decode "''type''" 5 idle]
  by (simp add: decode_def callback_def idle_def)

section \<open>Properties of the notification sinks\<close>

lemma Split_from_piece:
  "sep \<notin> set a \<Longrightarrow> Split_from piece (a @ sep # rest) sep = (piece @ a) # Split_from [] rest sep"
  by (induction a arbitrary: piece) auto

lemma Split_from_last: "sep \<notin> set a \<Longrightarrow> Split_from piece a sep = [piece @ a]"
  by (induction a arbitrary: piece) auto

lemma upperhex_nth: "n < 16 \<Longrightarrow> upperhex ! n \<in> set upperhex"
  by (rule nth_mem) (simp add: upperhex_def)

lemma ampersand_not_hex: "CHR ''&'' \<notin> set upperhex"
  by (simp add: upperhex_def)

lemma hex_digits_of_char:
  "upperhex ! (of_char c div 16) \<in> set upperhex" "upperhex ! (of_char c mod 16) \<in> set upperhex"
proof -
  have "(of_char c :: nat) < 256" by simp
  then have "(of_char c :: nat) div 16 < 16" by (simp add: less_mult_imp_div_less)
  then show "upperhex ! (of_char c div 16) \<in> set upperhex" by (rule upperhex_nth)
  show "upperhex ! (of_char c mod 16) \<in> set upperhex" by (rule upperhex_nth) simp
qed

lemma shouldEscape_ampersand: "shouldEscape CHR ''&''"
  by (simp add: shouldEscape_def)

text \<open>An escaped string holds no \<open>&\<close>: the pairs of an encoded form are its pieces at \<open>&\<close>.\<close>

lemma ampersand_not_in_QueryEscape: "CHR ''&'' \<notin> set (QueryEscape s)"
proof (induction s)
  case Nil
  show ?case by simp
next
  case (Cons c s)
  show ?case
  proof (cases "c = CHR ''&''")
    case True
    with Cons show ?thesis
      using hex_digits_of_char [of c] ampersand_not_hex shouldEscape_ampersand by auto
  next
    case False
    with Cons show ?thesis
      using hex_digits_of_char [of c] ampersand_not_hex by auto
  qed
qed

lemma toURLEncoded_eq:
  "hipchatPayload_toURLEncoded h =
     ''color='' @ (if hipchatPayload.Status h then ''green'' else ''red'') @
     ''&from='' @ QueryEscape (From h) @
     ''&message='' @ QueryEscape (hipchatPayload.Message h) @
     ''&message_format='' @ QueryEscape (Format h) @
     ''&notify='' @ (if Notify h then ''1'' else ''2'') @
     ''&room_id='' @ QueryEscape (Room h)"
  by (simp add: hipchatPayload_toURLEncoded_def Values_Encode_def shouldEscape_def)

lemma Split_toURLEncoded:
  "Split (hipchatPayload_toURLEncoded h) CHR ''&'' =
     [''color='' @ (if hipchatPayload.Status h then ''green'' else ''red''),
      ''from='' @ QueryEscape (From h),
      ''message='' @ QueryEscape (hipchatPayload.Message h),
      ''message_format='' @ QueryEscape (Format h),
      ''notify='' @ (if Notify h then ''1'' else ''2''),
      ''room_id='' @ QueryEscape (Room h)]"
  by (simp add: Split_def toURLEncoded_eq Split_from_piece Split_from_last
      ampersand_not_in_QueryEscape)

text \<open>
  Claim C9. The message that \<^verbatim>\<open>toURLEncoded\<close> encodes for the payload of a notification
  holds the pair \<open>color=green\<close> exactly when the status of the notification is pass, and the
  pair \<open>color=red\<close> exactly when it is fail. The pairs of the message are its pieces
  between the separators \<open>&\<close>.
\<close>

theorem toURLEncoded_color:
  "(''color=green'' \<in> set (Split (hipchatPayload_toURLEncoded (notToHipChapt n channel)) CHR ''&'')
      \<longleftrightarrow> notification.Status n) \<and>
   (''color=red'' \<in> set (Split (hipchatPayload_toURLEncoded (notToHipChapt n channel)) CHR ''&'')
      \<longleftrightarrow> \<not> notification.Status n)"
  by (simp add: Split_toURLEncoded notToHipChapt_def)

theorem toURLEncoded_color_witness:
  "''color=green'' \<in> set (Split (hipchatPayload_toURLEncoded (notToHipChapt (notice True) ''room 1'')) CHR ''&'') \<and>
   ''color=red'' \<in> set (Split (hipchatPayload_toURLEncoded (notToHipChapt (notice False) ''room 1'')) CHR ''&'')"
  using toURLEncoded_color [of "notice True" "''room 1''"]
    toURLEncoded_color [of "notice False" "''room 1''"]
  by (simp add: notice_def)

text \<open>
  The chat sink: whatever \<^verbatim>\<open>http.Post\<close> answers, \<^verbatim>\<open>hipchat\<close> returns, and the log grows by
  the error, if there was one.
\<close>

lemma hipchat_returns:
  "snd (hipchat http_Post lg n key chl) = Returned \<and>
   fst (hipchat http_Post lg n key chl) =
     (case http_Post (Sprintf api key) ''application/x-www-form-urlencoded''
             (hipchatPayload_toURLEncoded (notToHipChapt n chl)) of
        Some msg \<Rightarrow> lg @ [msg] | None \<Rightarrow> lg)"
  by (simp add: hipchat_def Let_def split: option.splits)

text \<open>
  The pull-request sink: \<^verbatim>\<open>PostPR\<close> returns exactly when there is no error; each error is
  logged and then ends the process with status 1.
\<close>

lemma PostPR_outcome:
  "snd (PostPR env lg job pc) =
     (if package_err env = None \<and>
         snd (json_Marshal env (newComment env job (GetConfig_URL env))) = None \<and>
         githubRequest env ''POST'' (CommentsURL (PR pc))
           (RepositoryForURL_AccessKey env (logging_Job.URL job))
           (fst (json_Marshal env (newComment env job (GetConfig_URL env)))) = None
      then Returned else Exited 1)"
  by (simp add: PostPR_def Let_def split_beta split: option.splits)

text \<open>
  Claim C8. A failure of a sink is to be logged only, and the dispatch is to return. The
  chat sink does so. The pull-request sink does not: when the request to GitHub fails,
  \<^verbatim>\<open>PostPR\<close> logs the error and ends the process with status 1, where the chat sink, given
  the same failure, logs it and returns.
\<close>

theorem PostPR_delivery_failure_exits:
  "PostPR (github (Some ''connection refused'')) [] pushed pull =
     ([''connection refused''], Exited 1) \<and>
   hipchat refuse [] (notice False) ''token'' ''room 1'' = ([''connection refused''], Returned)"
  by (simp add: PostPR_def hipchat_def github_def refuse_def Let_def)

end
